theory Spec2Isabelle
  imports Complex_Main "HOL-Library.Multiset" "HOL-Library.Sublist" "HOL-Library.AList"
begin

section \<open>Python arithmetic used by the analysis\<close>

text \<open>
  Coordinates, distances and angles are Python floats in the plugin.  They are modelled
  as real numbers: the results below are about the formulas of the code, not about the
  rounding of IEEE arithmetic.

  \<^item> \<open>x // y\<close> on floats is floor division and yields an integral float;
  \<^item> \<open>int(x)\<close> truncates toward zero;
  \<^item> \<open>x % y\<close> takes the sign of the divisor (for \<open>y > 0\<close> the result is in \<open>[0, y)\<close>);
  \<^item> \<open>xs[i]\<close> counts a negative index from the end and raises \<open>IndexError\<close> out of
    range (\<open>None\<close> here);
  \<^item> \<open>round(x, 2)\<close> rounds to two decimals, a tie going to the even digit.
\<close>

definition py_floordiv :: "real \<Rightarrow> real \<Rightarrow> real" where
  "py_floordiv x y = of_int \<lfloor>x / y\<rfloor>"

definition py_int :: "real \<Rightarrow> int" where
  "py_int x = (if 0 \<le> x then \<lfloor>x\<rfloor> else \<lceil>x\<rceil>)"

definition py_fmod :: "real \<Rightarrow> real \<Rightarrow> real" where
  "py_fmod x y = x - y * of_int \<lfloor>x / y\<rfloor>"

definition py_getitem :: "'a list \<Rightarrow> int \<Rightarrow> 'a option" where
  "py_getitem xs i =
     (let pos = (if i < 0 then i + int (length xs) else i)
      in if pos < 0 \<or> int (length xs) \<le> pos then None else Some (xs ! nat pos))"

definition py_round2 :: "real \<Rightarrow> real" where
  "py_round2 x =
     (let y = x * 100; f = \<lfloor>y\<rfloor>; r = y - of_int f
      in of_int (if r < 1 / 2 then f else if 1 / 2 < r then f + 1
                 else if even f then f else f + 1) / 100)"

text \<open>
  \<open>math.atan2(y, x)\<close>, the angle of the point \<open>(x, y)\<close> in \<open>(-pi, pi]\<close>, and
  \<open>math.degrees\<close>.
\<close>

definition atan2 :: "real \<Rightarrow> real \<Rightarrow> real" where
  "atan2 y x =
     (if 0 < x then arctan (y / x)
      else if x < 0 then (if 0 \<le> y then arctan (y / x) + pi else arctan (y / x) - pi)
      else if 0 < y then pi / 2
      else if y < 0 then - (pi / 2)
      else 0)"

definition degrees :: "real \<Rightarrow> real" where
  "degrees r = r * 180 / pi"

section \<open>Distance and azimuth helpers of \<open>run_analysis\<close>\<close>

record point =
  px :: real
  py :: real

definition dirs8 :: "string list" where
  "dirs8 = [''N'', ''NE'', ''E'', ''SE'', ''S'', ''SW'', ''W'', ''NW'']"

text \<open>
  \<^verbatim>\<open>idx = int((deg + 22.5) // 45) % 8; return dirs8[idx]\<close>
\<close>

definition azimuth_to_dir :: "real \<Rightarrow> string option" where
  "azimuth_to_dir deg =
     (let idx = py_int (py_floordiv (deg + 22.5) 45) mod 8
      in py_getitem dirs8 idx)"

text \<open>
  \<^verbatim>\<open>dx = p2.x - p1.x; dy = p2.y - p1.y
  angle_deg = math.degrees(math.atan2(dx, dy)); return (angle_deg + 360) % 360\<close>
\<close>

definition azimuth_geographic :: "point \<Rightarrow> point \<Rightarrow> real" where
  "azimuth_geographic p1 p2 =
     (let dx = px p2 - px p1;
          dy = py p2 - py p1;
          angle_deg = degrees (atan2 dx dy)
      in py_fmod (angle_deg + 360) 360)"

text \<open>
  The bearing of the specification: from the centroid toward the nearest boundary point
  \<open>P\<close>, \<open>atan2(P.x - centroid.x, P.y - centroid.y)\<close> in degrees, plus 360, modulo 360.
\<close>

definition bearing_degrees_spec :: "point \<Rightarrow> point \<Rightarrow> real" where
  "bearing_degrees_spec P ctr =
     py_fmod (degrees (atan2 (px P - px ctr) (py P - py ctr)) + 360) 360"

section \<open>Geometry collections and the conversion to EPSG:29903\<close>

text \<open>
  A coordinate reference system object either carries an EPSG code or does not
  (\<open>to_epsg()\<close> returns \<open>None\<close>).  A GeoDataFrame is its optional CRS, its column names
  in order (the geometry column among them, under the name \<open>geometry\<close>) and its rows; a
  row is its attribute values by column name and its geometry.  The geometry type \<open>'g\<close>
  and the operations of shapely and geopandas on it are parameters.
\<close>

datatype crs = EPSG nat | NoCode string

fun to_epsg :: "crs \<Rightarrow> nat option" where
  "to_epsg (EPSG n) = Some n"
| "to_epsg (NoCode _) = None"

record 'g feature =
  attrs :: "(string \<times> string) list"
  geometry :: 'g

record 'g gdf =
  gdf_crs :: "crs option"
  columns :: "string list"
  gdf_rows :: "'g feature list"

text \<open>
  \<open>gdf.set_crs(epsg=n)\<close> and \<open>gdf.to_crs(epsg=n)\<close> return a new frame or raise
  (\<open>Inl\<close> the exception's text).
\<close>

record 'g geopandas =
  set_crs :: "'g gdf \<Rightarrow> nat \<Rightarrow> string + 'g gdf"
  to_crs :: "'g gdf \<Rightarrow> nat \<Rightarrow> string + 'g gdf"

text \<open>
  The second \<open>try\<close> block of \<open>_to_metric_gdf\<close>: \<open>orig_crs.to_epsg()\<close> raises when
  \<open>orig_crs\<close> is \<open>None\<close>, and every exception of the block ends in the handler that
  returns the frame as it is.  The result is the returned triple and the lines logged.
\<close>

definition convert_29903 ::
  "'g geopandas \<Rightarrow> 'g gdf \<Rightarrow> crs option \<Rightarrow> ('g gdf \<times> bool \<times> crs option) \<times> string list" where
  "convert_29903 lib gdf orig_crs =
     (case orig_crs of
        None \<Rightarrow> ((gdf, False, orig_crs),
                 [''CRS conversion to EPSG:29903 failed: '' @ ''NoneType has no attribute to_epsg''])
      | Some c \<Rightarrow>
          if to_epsg c \<noteq> Some 29903 then
            (case to_crs lib gdf 29903 of
               Inr gdf_29903 \<Rightarrow>
                 ((gdf_29903, True, orig_crs), [''Reprojected layer to EPSG:29903 (Irish Grid).''])
             | Inl e \<Rightarrow>
                 ((gdf, False, orig_crs), [''CRS conversion to EPSG:29903 failed: '' @ e]))
          else ((gdf, False, orig_crs), []))"

definition to_metric_gdf ::
  "'g geopandas \<Rightarrow> 'g gdf \<Rightarrow> ('g gdf \<times> bool \<times> crs option) \<times> string list" where
  "to_metric_gdf lib gdf =
     (case gdf_crs gdf of
        None \<Rightarrow>
          (case set_crs lib gdf 4326 of
             Inr gdf' \<Rightarrow>
               (let (res, msgs) = convert_29903 lib gdf' (gdf_crs gdf')
                in (res, ''Layer has no CRS; assumed EPSG:4326.'' # msgs))
           | Inl e \<Rightarrow> ((gdf, False, None), [''Unable to set CRS for the layer.'']))
      | Some c \<Rightarrow> convert_29903 lib gdf (Some c))"

section \<open>Python strings\<close>

text \<open>
  \<open>s.strip(chars)\<close>, \<open>s.rstrip(chars)\<close>, \<open>s.replace(pat, "")\<close>, \<open>s.lower()\<close> on ASCII
  letters, \<open>str(n)\<close> for a length, and the truth value of an optional string (\<open>None\<close>
  and the empty string are false).
\<close>

definition py_whitespace :: "char list" where
  "py_whitespace = [CHR '' '', CHR 0x09, CHR 0x0A, CHR 0x0B, CHR 0x0C, CHR 0x0D,
                    CHR 0x1C, CHR 0x1D, CHR 0x1E, CHR 0x1F]"

definition py_lstrip :: "char list \<Rightarrow> string \<Rightarrow> string" where
  "py_lstrip cs s = dropWhile (\<lambda>c. c \<in> set cs) s"

definition py_rstrip :: "char list \<Rightarrow> string \<Rightarrow> string" where
  "py_rstrip cs s = rev (dropWhile (\<lambda>c. c \<in> set cs) (rev s))"

definition py_strip :: "char list \<Rightarrow> string \<Rightarrow> string" where
  "py_strip cs s = py_rstrip cs (py_lstrip cs s)"

fun py_remove_all :: "string \<Rightarrow> string \<Rightarrow> string" where
  "py_remove_all pat [] = []"
| "py_remove_all pat (c # s) =
     (if pat \<noteq> [] \<and> prefix pat (c # s) then py_remove_all pat (drop (length pat) (c # s))
      else c # py_remove_all pat s)"

definition py_lower :: "string \<Rightarrow> string" where
  "py_lower s =
     map (\<lambda>c. let n = (of_char c :: nat) in if 65 \<le> n \<and> n \<le> 90 then char_of (n + 32) else c) s"

definition digit_char :: "nat \<Rightarrow> char" where
  "digit_char n = char_of (48 + n)"

function str_nat :: "nat \<Rightarrow> string" where
  "str_nat n = (if n < 10 then [digit_char n] else str_nat (n div 10) @ [digit_char (n mod 10)])"
  by pat_completeness auto
termination
  by (relation "measure id") auto

declare str_nat.simps [simp del]

definition truthy :: "string option \<Rightarrow> bool" where
  "truthy s = (case s of None \<Rightarrow> False | Some t \<Rightarrow> t \<noteq> [])"

section \<open>The collaborators of the dialog\<close>

text \<open>
  The shapely operations the plugin calls, on well-formed geometries:
  \<open>g.intersects(h)\<close>, \<open>g.boundary\<close>, \<open>nearest_points(g, h)\<close> (a pair of points, the
  first on \<open>g\<close>, the second on \<open>h\<close>), \<open>g.distance(p)\<close>, \<open>g.centroid\<close>, \<open>g.buffer(r)\<close>,
  \<open>gdf.unary_union\<close> and \<open>g.bounds\<close>.
\<close>

record 'g shapely =
  intersects :: "'g \<Rightarrow> 'g \<Rightarrow> bool"
  boundary :: "'g \<Rightarrow> 'g"
  nearest_points :: "'g \<Rightarrow> 'g \<Rightarrow> point \<times> point"
  distance :: "'g \<Rightarrow> point \<Rightarrow> real"
  centroid :: "'g \<Rightarrow> point"
  buffer :: "'g \<Rightarrow> real \<Rightarrow> 'g"
  unary_union :: "'g feature list \<Rightarrow> 'g"
  bounds :: "'g \<Rightarrow> real \<times> real \<times> real \<times> real"

text \<open>A row of \<open>result_gdf\<close> after the three computed columns have been assigned.\<close>

record 'g scored = "'g feature" +
  Distance_m :: real
  Direction_deg :: real
  Direction :: string

text \<open>A QGIS map layer, as far as the dialog reads it.\<close>

record layer =
  is_vector :: bool
  layer_name :: string
  provider_type :: string
  layer_source :: string
  data_source_uri :: string
  field_names :: "string list"

text \<open>
  One feature of an ArcGIS GeoJSON answer: \<open>shape(feat["geometry"])\<close> (\<open>None\<close> when the
  key is absent or the geometry cannot be built: the code raises), and the values of
  \<open>feat.get("properties")\<close> and \<open>feat.get("attributes")\<close>.
\<close>

record 'g geojson_feature =
  gj_geometry :: "'g option"
  gj_properties :: "(string \<times> string) list option"
  gj_attributes :: "(string \<times> string) list option"

datatype request = WfsGetFeature string | ArcgisQuery string "(string \<times> string) list"

text \<open>
  Everything outside the dialog.  \<open>read_file\<close> is \<open>gpd.read_file\<close> on a data source;
  \<open>sort_values\<close> is pandas' \<open>sort_values("Distance_m", ascending=True)\<close> with its default
  \<open>kind\<close>; \<open>save_file_name\<close> is the path chosen in the save dialog (empty when the user
  cancels); \<open>wfs_get_feature\<close> is the GetFeature request for a type name with
  \<open>raise_for_status\<close> and the parse of its body; \<open>arcgis_query\<close> is the query request
  with \<open>raise_for_status\<close>, \<open>r.json()\<close> and \<open>data.get("features")\<close>; \<open>str_float\<close> formats
  a float in an f-string; \<open>map_layers\<close> are the layers of the QGIS project and
  \<open>wfs_contents\<close> the (name, title) pairs of the EPA WFS catalogue; \<open>schema_fields\<close> is
  what the schema lookup of \<open>update_fields_for_api\<close> finds for an API layer name: the
  field names it lists and the lines it logs.  A call that raises returns \<open>Inl\<close> with
  the exception's text.
\<close>

record 'g world =
  gpd :: "'g geopandas"
  shp :: "'g shapely"
  read_file :: "string \<Rightarrow> string + 'g gdf"
  sort_values :: "'g scored list \<Rightarrow> 'g scored list"
  save_file_name :: string
  wfs_get_feature :: "string \<Rightarrow> string + 'g gdf"
  arcgis_query :: "string \<Rightarrow> (string \<times> string) list \<Rightarrow> string + 'g geojson_feature list option"
  str_float :: "real \<Rightarrow> string"
  map_layers :: "layer list"
  wfs_contents :: "string + (string \<times> string) list"
  schema_fields :: "string \<Rightarrow> string list \<times> string list"

text \<open>
  The state of \<open>NearestAnalysisDialog\<close>: the two dictionaries, the two layer lists, the
  items and current index of the two combo boxes (-1 when there is no current item), the
  items and the selected items of \<open>fields_list\<close>, and the lines of the log browser.
\<close>

record 'g dialog =
  wfs_layers_info :: "(string \<times> string) list"
  api_pre_filtered :: "string \<times> int \<Rightarrow> 'g gdf option"
  shp_layers :: "layer list"
  api_layers :: "layer list"
  combo_app :: "string list"
  combo_api :: "string list"
  app_current :: int
  api_current :: int
  fields_list :: "string list"
  fields_selected :: "string list"
  log_lines :: "string list"

definition current_text :: "string list \<Rightarrow> int \<Rightarrow> string" where
  "current_text items i = (if 0 \<le> i \<and> i < int (length items) then items ! nat i else [])"

definition log_to :: "string list \<Rightarrow> 'g dialog \<Rightarrow> 'g dialog" where
  "log_to msgs d = d\<lparr>log_lines := log_lines d @ msgs\<rparr>"

section \<open>Reading the application layer\<close>

text \<open>
  \<^verbatim>\<open>app_layer = self.shp_layers[app_index]
  app_gdf = gpd.read_file(app_layer.dataProvider().dataSourceUri())
  app_gdf_29903, _, _ = self._to_metric_gdf(app_gdf)\<close>
  The index and the read may raise; the conversion logs and never raises.  The lines
  logged before an exception stay in the log.
\<close>

definition read_app_layer ::
  "'g world \<Rightarrow> 'g dialog \<Rightarrow> int \<Rightarrow> (string + 'g gdf) \<times> string list" where
  "read_app_layer w d app_index =
     (case py_getitem (shp_layers d) app_index of
        None \<Rightarrow> (Inl ''list index out of range'', [])
      | Some app_layer \<Rightarrow>
          (case read_file w (data_source_uri app_layer) of
             Inl e \<Rightarrow> (Inl e, [])
           | Inr app_gdf \<Rightarrow>
               (let ((app_gdf_29903, _, _), msgs) = to_metric_gdf (gpd w) app_gdf
                in (Inr app_gdf_29903, msgs))))"

section \<open>\<open>run_analysis\<close>\<close>

text \<open>
  The name of the column of bearings, \<open>Direction\<close> followed by the degree sign in
  parentheses; the degree sign is written as the two bytes of its UTF-8 encoding.
\<close>

definition col_direction_deg :: string where
  "col_direction_deg = ''Direction ('' @ [CHR 0xC2, CHR 0xB0] @ '')''"

text \<open>
  The loop over \<open>result_gdf.geometry\<close>, with the three lists it fills kept beside the
  row they belong to.  \<open>dirs8[idx]\<close> is the only step of the loop body that can raise
  inside the plugin's own code.
\<close>

definition score_one :: "'g shapely \<Rightarrow> 'g \<Rightarrow> point \<Rightarrow> 'g feature \<Rightarrow> 'g scored option" where
  "score_one sh app_union app_centroid f =
     (let geom = geometry f;
          nearest_pt_on_app = snd (nearest_points sh geom (boundary sh app_union));
          dist = distance sh geom nearest_pt_on_app;
          angle = azimuth_geographic app_centroid nearest_pt_on_app
      in case azimuth_to_dir angle of
           None \<Rightarrow> None
         | Some d \<Rightarrow>
             Some \<lparr>attrs = attrs f, geometry = geom, Distance_m = dist,
                   Direction_deg = py_round2 angle, Direction = d\<rparr>)"

fun score_all :: "'g shapely \<Rightarrow> 'g \<Rightarrow> point \<Rightarrow> 'g feature list \<Rightarrow> 'g scored list option" where
  "score_all sh app_union app_centroid [] = Some []"
| "score_all sh app_union app_centroid (f # fs) =
     (case score_one sh app_union app_centroid f of
        None \<Rightarrow> None
      | Some r \<Rightarrow> map_option ((#) r) (score_all sh app_union app_centroid fs))"

text \<open>\<open>df[c] = values\<close>: an existing column is overwritten in place, a new one is appended.\<close>

definition assign_column :: "string \<Rightarrow> string list \<Rightarrow> string list" where
  "assign_column c cols = (if c \<in> set cols then cols else cols @ [c])"

definition result_columns :: "string list \<Rightarrow> string list" where
  "result_columns cols =
     assign_column ''Direction'' (assign_column col_direction_deg (assign_column ''Distance_m'' cols))"

text \<open>\<open>sort_values("Distance_m", ascending=True).head(1).reset_index(drop=True)\<close>\<close>

definition keep_nearest :: "'g world \<Rightarrow> 'g scored list \<Rightarrow> 'g scored list" where
  "keep_nearest w rows = take 1 (sort_values w rows)"

text \<open>
  \<^verbatim>\<open>if not selected_fields:
      selected_fields = [c for c in result_gdf.columns if c != "geometry"]
  export_cols = selected_fields + ["Distance_m", "Direction (deg)", "Direction"]\<close>
  (\<open>deg\<close> for the degree sign), where \<open>result_gdf.columns\<close> already holds the three
  assigned columns.
\<close>

definition export_cols :: "string list \<Rightarrow> string list \<Rightarrow> string list" where
  "export_cols selected cols =
     (let selected_fields =
            (if selected = [] then filter (\<lambda>c. c \<noteq> ''geometry'') (result_columns cols)
             else selected)
      in selected_fields @ [''Distance_m'', col_direction_deg, ''Direction''])"

datatype 'g cell = Text string | Number real | Shape 'g | Missing

definition cell_of :: "'g scored \<Rightarrow> string \<Rightarrow> 'g cell" where
  "cell_of r c =
     (if c = ''Direction'' then Text (Direction r)
      else if c = col_direction_deg then Number (Direction_deg r)
      else if c = ''Distance_m'' then Number (Distance_m r)
      else if c = ''geometry'' then Shape (geometry r)
      else (case map_of (attrs r) c of Some v \<Rightarrow> Text v | None \<Rightarrow> Missing))"

text \<open>
  What a run ends in: a warning or information box (title, text), a cancelled save
  dialog, the CSV written (path, header, data rows), or an exception caught by the
  handler of \<open>run_analysis\<close>.  The figure drawn after the CSV is written is left out, and
  so is the import of matplotlib at the head of the \<open>try\<close> block.
\<close>

datatype 'g outcome =
    Warning string string
  | Information string string
  | SaveCancelled
  | Csv string "string list" "'g cell list list"
  | Failed string

definition evaluate ::
  "'g world \<Rightarrow> string list \<Rightarrow> 'g gdf \<Rightarrow> 'g gdf \<Rightarrow> 'g outcome \<times> string list" where
  "evaluate w selected pre_gdf app_gdf_29903 =
     (let app_union = unary_union (shp w) (gdf_rows app_gdf_29903);
          app_centroid = centroid (shp w) app_union;
          user_buffer_geom = buffer (shp w) app_union 100000;
          result_gdf = filter (\<lambda>f. intersects (shp w) (geometry f) user_buffer_geom) (gdf_rows pre_gdf)
      in if result_gdf = [] then
           (Information ''No Results'' ''No features found within the 100 km buffer.'', [])
         else
           (case score_all (shp w) app_union app_centroid result_gdf of
              None \<Rightarrow> (Failed ''list index out of range'',
                        [''Analysis failed: list index out of range''])
            | Some rows \<Rightarrow>
                (let nearest = keep_nearest w rows;
                     cols = export_cols selected (columns pre_gdf);
                     output_csv = save_file_name w
                 in if output_csv = [] then (SaveCancelled, [''CSV save cancelled by user.''])
                    else if \<not> set cols \<subseteq> set (result_columns (columns pre_gdf)) then
                      (Failed ''KeyError'', [''Analysis failed: KeyError''])
                    else
                      (Csv output_csv cols (map (\<lambda>r. map (cell_of r) cols) nearest),
                       [''CSV saved: '' @ output_csv, ''Opening Matplotlib Figure Window...'']))))"

definition run_analysis :: "'g world \<Rightarrow> 'g dialog \<Rightarrow> 'g outcome \<times> 'g dialog" where
  "run_analysis w d0 =
     (let d = log_to [''All computations use EPSG:29903 (Irish Grid).''] d0;
          app_index = app_current d;
          api_name = current_text (combo_api d) (api_current d)
      in if app_index < 0 \<or> api_name = [] then
           (Warning ''Error'' ''Please select both layers.'', d)
         else
           (let cache_key = (api_name, app_index)
            in case api_pre_filtered d cache_key of
                 None \<Rightarrow> (Warning ''Error'' ''Preprocessed data is empty.'', d)
               | Some pre_gdf \<Rightarrow>
                   if gdf_rows pre_gdf = [] then (Warning ''Error'' ''Preprocessed data is empty.'', d)
                   else
                     (case read_app_layer w d app_index of
                        (Inl e, msgs) \<Rightarrow> (Failed e, log_to (msgs @ [''Analysis failed: '' @ e]) d)
                      | (Inr app_gdf_29903, msgs) \<Rightarrow>
                          (let (out, msgs') = evaluate w (fields_selected d) pre_gdf app_gdf_29903
                           in (out, log_to (msgs @ msgs') d)))))"

section \<open>\<open>run_prestep\<close>\<close>

text \<open>
  The source string of an API layer as \<open>run_prestep\<close> cleans it: \<open>strip()\<close>, then for a
  string starting with \<open>url=\<close> every \<open>url=\<close> removed and the quotes stripped, then the
  quotes stripped again.
\<close>

definition quote_chars :: "char list" where
  "quote_chars = [CHR 0x27, CHR 0x22]"

definition clean_source :: "string \<Rightarrow> string" where
  "clean_source s0 =
     (let s1 = py_strip py_whitespace s0;
          s2 = (if prefix ''url='' s1 then py_strip quote_chars (py_remove_all ''url='' s1) else s1)
      in py_strip quote_chars s2)"

definition find_source :: "'g dialog \<Rightarrow> string \<Rightarrow> string option" where
  "find_source d api_name =
     (case find (\<lambda>lyr. layer_name lyr = api_name) (api_layers d) of
        None \<Rightarrow> None
      | Some lyr \<Rightarrow> Some (layer_source lyr))"

definition is_arcgis :: "string \<Rightarrow> bool" where
  "is_arcgis s = (sublist ''/FeatureServer/'' s \<or> sublist ''/MapServer/'' s)"

definition query_url :: "string \<Rightarrow> string" where
  "query_url source_str =
     (let base_url = takeWhile (\<lambda>c. c \<noteq> CHR ''?'') source_str
      in if \<not> suffix ''/query'' base_url then py_rstrip ''/'' base_url @ ''/query'' else base_url)"

definition query_params :: "string \<Rightarrow> (string \<times> string) list" where
  "query_params bbox_str =
     [(''where'', ''1=1''), (''outFields'', ''*''), (''geometry'', bbox_str),
      (''geometryType'', ''esriGeometryEnvelope''), (''inSR'', ''29903''),
      (''spatialRel'', ''esriSpatialRelIntersects''), (''outSR'', ''29903''),
      (''f'', ''geojson'')]"

text \<open>
  \<^verbatim>\<open>props = feat.get("properties") or feat.get("attributes", {})
  geo_list.append({**props, "geometry": geom})\<close>
  An empty or absent \<open>properties\<close> falls back on \<open>attributes\<close>.  The whole list fails when
  one geometry cannot be built.
\<close>

definition feature_props :: "'g geojson_feature \<Rightarrow> (string \<times> string) list" where
  "feature_props feat =
     (case gj_properties feat of
        Some (p # ps) \<Rightarrow> p # ps
      | _ \<Rightarrow> (case gj_attributes feat of Some a \<Rightarrow> a | None \<Rightarrow> []))"

fun geo_list :: "'g geojson_feature list \<Rightarrow> 'g feature list option" where
  "geo_list [] = Some []"
| "geo_list (feat # feats) =
     (case gj_geometry feat of
        None \<Rightarrow> None
      | Some geom \<Rightarrow>
          map_option ((#) \<lparr>attrs = feature_props feat, geometry = geom\<rparr>) (geo_list feats))"

text \<open>
  The columns of \<open>gpd.GeoDataFrame(geo_list, crs="EPSG:29903")\<close>: the keys of the
  dictionaries in order of first appearance, \<open>geometry\<close> after the properties of its row.
\<close>

definition frame_columns :: "'g feature list \<Rightarrow> string list" where
  "frame_columns rows =
     rev (remdups (rev (concat (map (\<lambda>r. map fst (attrs r) @ [''geometry'']) rows))))"

definition prefilter :: "'g shapely \<Rightarrow> 'g \<Rightarrow> 'g gdf \<Rightarrow> 'g gdf" where
  "prefilter sh buffer_geom api_gdf =
     api_gdf\<lparr>gdf_rows := filter (\<lambda>f. intersects sh (geometry f) buffer_geom) (gdf_rows api_gdf)\<rparr>"

definition store :: "string \<times> int \<Rightarrow> 'g gdf \<Rightarrow> 'g dialog \<Rightarrow> 'g dialog" where
  "store cache_key pre_gdf d = d\<lparr>api_pre_filtered := (api_pre_filtered d)(cache_key \<mapsto> pre_gdf)\<rparr>"

text \<open>Case 1 of \<open>run_prestep\<close>: WFS GetFeature.  The result is the new state and the requests sent.\<close>

definition prestep_wfs ::
  "'g world \<Rightarrow> string \<Rightarrow> string \<times> int \<Rightarrow> 'g \<Rightarrow> 'g dialog \<Rightarrow> 'g dialog \<times> request list" where
  "prestep_wfs w type_name cache_key buffer_geom d =
     (case wfs_get_feature w type_name of
        Inl e \<Rightarrow> (log_to [''WFS pre-download failed: '' @ e] d, [WfsGetFeature type_name])
      | Inr raw \<Rightarrow>
          (case to_crs (gpd w) raw 29903 of
             Inl e \<Rightarrow> (log_to [''WFS pre-download failed: '' @ e] d, [WfsGetFeature type_name])
           | Inr api_gdf \<Rightarrow>
               (let pre_gdf = prefilter (shp w) buffer_geom api_gdf
                in (log_to [''Found '' @ str_nat (length (gdf_rows pre_gdf))
                              @ '' WFS features within 100 km (EPSG:29903).'']
                      (store cache_key pre_gdf d),
                    [WfsGetFeature type_name]))))"

text \<open>
  \<^verbatim>\<open>minx, miny, maxx, maxy = buffer_geom.bounds
  bbox_str = f"{minx},{miny},{maxx},{maxy}"\<close>
\<close>

definition bbox_str :: "'g world \<Rightarrow> 'g \<Rightarrow> string" where
  "bbox_str w buffer_geom =
     (let (minx, miny, maxx, maxy) = bounds (shp w) buffer_geom
      in str_float w minx @ '','' @ str_float w miny @ '','' @ str_float w maxx
         @ '','' @ str_float w maxy)"

text \<open>Case 2 of \<open>run_prestep\<close>: ArcGIS REST query, for a source already recognised.\<close>

definition prestep_arcgis ::
  "'g world \<Rightarrow> string \<Rightarrow> string \<times> int \<Rightarrow> 'g \<Rightarrow> 'g dialog \<Rightarrow> 'g dialog \<times> request list" where
  "prestep_arcgis w source_str cache_key buffer_geom d =
     (let base_url = query_url source_str;
          params = query_params (bbox_str w buffer_geom)
      in case arcgis_query w base_url params of
           Inl e \<Rightarrow> (log_to [''ArcGIS REST pre-download failed: '' @ e] d,
                     [ArcgisQuery base_url params])
         | Inr data \<Rightarrow>
             (let feats = (case data of None \<Rightarrow> [] | Some fs \<Rightarrow> fs)
              in if feats = [] then
                   (log_to [''No features returned from ArcGIS API.''] d,
                    [ArcgisQuery base_url params])
                 else
                   (case geo_list feats of
                      None \<Rightarrow> (log_to [''ArcGIS REST pre-download failed: geometry''] d,
                                [ArcgisQuery base_url params])
                    | Some rows \<Rightarrow>
                        (let api_gdf = \<lparr>gdf_crs = Some (EPSG 29903),
                                        columns = frame_columns rows, gdf_rows = rows\<rparr>;
                             pre_gdf = prefilter (shp w) buffer_geom api_gdf
                         in (log_to [''Found '' @ str_nat (length (gdf_rows pre_gdf))
                                       @ '' ArcGIS features within 100 km (EPSG:29903).'']
                               (store cache_key pre_gdf d),
                             [ArcgisQuery base_url params])))))"

definition str_or_empty :: "string option \<Rightarrow> string" where
  "str_or_empty s = (case s of None \<Rightarrow> [] | Some t \<Rightarrow> t)"

text \<open>The choice of the protocol, once the buffer around the application area is known.\<close>

definition prestep_download ::
  "'g world \<Rightarrow> string \<Rightarrow> string \<times> int \<Rightarrow> 'g \<Rightarrow> 'g dialog \<Rightarrow> 'g dialog \<times> request list" where
  "prestep_download w api_name cache_key buffer_geom d =
     (let type_name = map_of (wfs_layers_info d) api_name
      in if truthy type_name then
           prestep_wfs w (str_or_empty type_name) cache_key buffer_geom d
         else
           (let source_str0 = find_source d api_name;
                source_str = (if truthy source_str0 then map_option clean_source source_str0
                              else source_str0)
            in if truthy source_str \<and> is_arcgis (str_or_empty source_str) then
                 prestep_arcgis w (str_or_empty source_str) cache_key buffer_geom d
               else (log_to [''Unsupported API type or empty data source.''] d, [])))"

definition run_prestep :: "'g world \<Rightarrow> 'g dialog \<Rightarrow> 'g dialog \<times> request list" where
  "run_prestep w d =
     (let app_index = app_current d;
          api_index = api_current d;
          api_name = current_text (combo_api d) api_index;
          cache_key = (api_name, app_index)
      in if app_index < 0 \<or> api_index < 0 then (d, [])
         else if api_pre_filtered d cache_key \<noteq> None then
           (log_to [''Using cached preprocessed data.''] d, [])
         else
           (case read_app_layer w d app_index of
              (Inl e, msgs) \<Rightarrow> (log_to (msgs @ [''Preprocessing failed: '' @ e]) d, [])
            | (Inr app_gdf_29903, msgs) \<Rightarrow>
                prestep_download w api_name cache_key
                  (buffer (shp w) (unary_union (shp w) (gdf_rows app_gdf_29903)) 100000)
                  (log_to msgs d)))"

section \<open>\<open>populate_layers\<close> and a session of the dialog\<close>

text \<open>
  The loop over the project's layers: an OGR layer or a layer named \<open>*.shp\<close> goes to the
  application combo box and \<open>shp_layers\<close>, every other vector layer to the API combo box
  and \<open>api_layers\<close>.
\<close>

definition is_app_layer :: "layer \<Rightarrow> bool" where
  "is_app_layer l = (py_lower (provider_type l) = ''ogr'' \<or> suffix ''.shp'' (py_lower (layer_name l)))"

definition wfs_entry :: "string \<times> string \<Rightarrow> string \<times> string" where
  "wfs_entry e =
     (let layer_name = fst e;
          title = snd e;
          type_name = (if prefix ''EPA:'' layer_name then layer_name else ''EPA:'' @ layer_name);
          display_name = title @ '' ('' @ type_name @ '')''
      in (display_name, type_name))"

text \<open>
  After \<open>clear()\<close> a combo box has no current item; the first \<open>addItem\<close> makes its item
  current.  The signals that the combo boxes emit while they are refilled are not
  followed here.
\<close>

definition first_index :: "string list \<Rightarrow> int" where
  "first_index items = (if items = [] then - 1 else 0)"

definition populate_layers :: "'g world \<Rightarrow> 'g dialog \<Rightarrow> 'g dialog" where
  "populate_layers w d =
     (let vectors = filter is_vector (map_layers w);
          shps = filter is_app_layer vectors;
          apis = filter (\<lambda>l. \<not> is_app_layer l) vectors;
          (infos, msg) =
            (case wfs_contents w of
               Inl e \<Rightarrow> ([], ''Failed to access WFS service: '' @ e)
             | Inr contents \<Rightarrow>
                 (let entries = map wfs_entry contents;
                      info = fold (\<lambda>(k, v). AList.update k v) entries []
                  in (entries, ''Loaded '' @ str_nat (length info) @ '' WFS layers.'')));
          api_items = map layer_name apis @ map fst infos
      in d\<lparr>wfs_layers_info := fold (\<lambda>(k, v). AList.update k v) infos [],
            api_pre_filtered := Map.empty,
            shp_layers := shps,
            api_layers := apis,
            combo_app := map layer_name shps,
            combo_api := api_items,
            app_current := first_index (map layer_name shps),
            api_current := first_index api_items,
            fields_list := (case shps of [] \<Rightarrow> fields_list d | l # _ \<Rightarrow> field_names l),
            fields_selected := (case shps of [] \<Rightarrow> fields_selected d | l # _ \<Rightarrow> []),
            log_lines := log_lines d @ [msg]\<rparr>)"

text \<open>
  \<open>update_fields_for_api\<close> empties \<open>fields_list\<close> (and with it the selection) and
  refills it from the schema of the chosen API layer.  The lookup itself (a
  DescribeFeatureType or layer JSON request) is the world's \<open>schema_fields\<close>; it touches
  no other part of the dialog and is not a fetch of features.
\<close>

definition update_fields_for_api :: "'g world \<Rightarrow> 'g dialog \<Rightarrow> 'g dialog" where
  "update_fields_for_api w d =
     (let api_name = current_text (combo_api d) (api_current d)
      in if api_name = [] then d\<lparr>fields_list := [], fields_selected := []\<rparr>
         else d\<lparr>fields_list := fst (schema_fields w api_name), fields_selected := [],
                log_lines := log_lines d @ snd (schema_fields w api_name)\<rparr>)"

text \<open>
  What the user does in a session: choose an item of either combo box, press Run, press
  Refresh.  A change of the current index of the API combo box runs
  \<open>update_fields_for_api\<close> and then \<open>run_prestep\<close>; a change of the application combo box
  runs \<open>run_prestep\<close>.  A session collects the requests that fetch features.
\<close>

datatype event = SelectApp int | SelectApi int | Run | Refresh

definition valid_index :: "string list \<Rightarrow> int \<Rightarrow> bool" where
  "valid_index items i = (0 \<le> i \<and> i < int (length items))"

fun step :: "'g world \<Rightarrow> 'g dialog \<Rightarrow> event \<Rightarrow> 'g dialog \<times> request list" where
  "step w d (SelectApp i) =
     (if valid_index (combo_app d) i \<and> i \<noteq> app_current d
      then run_prestep w (d\<lparr>app_current := i\<rparr>) else (d, []))"
| "step w d (SelectApi i) =
     (if valid_index (combo_api d) i \<and> i \<noteq> api_current d
      then run_prestep w (update_fields_for_api w (d\<lparr>api_current := i\<rparr>)) else (d, []))"
| "step w d Run = (snd (run_analysis w d), [])"
| "step w d Refresh = (populate_layers w d, [])"

fun session :: "'g world \<Rightarrow> 'g dialog \<Rightarrow> event list \<Rightarrow> 'g dialog \<times> request list" where
  "session w d [] = (d, [])"
| "session w d (e # es) =
     (let (d1, rs1) = step w d e;
          (d2, rs2) = session w d1 es
      in (d2, rs1 @ rs2))"

definition selected_pair :: "'g dialog \<Rightarrow> string \<times> int" where
  "selected_pair d = (current_text (combo_api d) (api_current d), app_current d)"

section \<open>A small world for concrete runs\<close>

text \<open>
  Geometries on a line: the application area is a square of 1 km around the origin, and
  the real number \<open>g\<close> stands for a feature lying \<open>g\<close> metres north of its northern edge.
  The nearest boundary point is then \<open>(0, 500)\<close> and the buffered area reaches 100 km.
\<close>

definition line_shapely :: "real shapely" where
  "line_shapely =
     \<lparr>intersects = (\<lambda>g b. g \<le> b),
      boundary = (\<lambda>g. g),
      nearest_points = (\<lambda>g b. (\<lparr>px = 0, py = 500 + g\<rparr>, \<lparr>px = 0, py = 500\<rparr>)),
      distance = (\<lambda>g p. \<bar>500 + g - py p\<bar>),
      centroid = (\<lambda>g. \<lparr>px = 0, py = 0\<rparr>),
      buffer = (\<lambda>g r. g + r),
      unary_union = (\<lambda>fs. 0),
      bounds = (\<lambda>g. (- 500 - g, - 500 - g, 500 + g, 500 + g))\<rparr>"

definition tagging_geopandas :: "real geopandas" where
  "tagging_geopandas =
     \<lparr>set_crs = (\<lambda>g n. Inr (g\<lparr>gdf_crs := Some (EPSG n)\<rparr>)),
      to_crs = (\<lambda>g n. Inr (g\<lparr>gdf_crs := Some (EPSG n)\<rparr>))\<rparr>"

definition area_layer :: layer where
  "area_layer =
     \<lparr>is_vector = True, layer_name = ''site'', provider_type = ''ogr'',
      layer_source = ''site.shp'', data_source_uri = ''site.shp'', field_names = [''id'']\<rparr>"

definition rest_layer :: layer where
  "rest_layer =
     \<lparr>is_vector = True, layer_name = ''wells'', provider_type = ''arcgisfeatureserver'',
      layer_source = ''url='' @ [CHR 0x27] @ ''https://example.org/rest/services/wells/MapServer/0''
                     @ [CHR 0x27],
      data_source_uri = '''', field_names = []\<rparr>"

definition area_gdf :: "real gdf" where
  "area_gdf =
     \<lparr>gdf_crs = Some (EPSG 29903), columns = [''id'', ''geometry''],
      gdf_rows = [\<lparr>attrs = [(''id'', ''1'')], geometry = 0\<rparr>]\<rparr>"

text \<open>Three features, 50, 10 and 30 metres from the boundary, and one beyond the buffer.\<close>

definition remote_gdf :: "real gdf" where
  "remote_gdf =
     \<lparr>gdf_crs = Some (EPSG 4326), columns = [''name'', ''code'', ''geometry''],
      gdf_rows = [\<lparr>attrs = [(''name'', ''A''), (''code'', ''1'')], geometry = 50\<rparr>,
                  \<lparr>attrs = [(''name'', ''X''), (''code'', ''123'')], geometry = 10\<rparr>,
                  \<lparr>attrs = [(''name'', ''C''), (''code'', ''3'')], geometry = 30\<rparr>,
                  \<lparr>attrs = [(''name'', ''D''), (''code'', ''4'')], geometry = 200000\<rparr>]\<rparr>"

definition line_world :: "real world" where
  "line_world =
     \<lparr>gpd = tagging_geopandas,
      shp = line_shapely,
      read_file = (\<lambda>uri. if uri = ''site.shp'' then Inr area_gdf else Inl ''no such file''),
      sort_values = sort_key Distance_m,
      save_file_name = ''Nearest_Result.csv'',
      wfs_get_feature = (\<lambda>t. if t = ''EPA:WATER'' then Inr remote_gdf else Inl ''404''),
      arcgis_query = (\<lambda>url params. Inr (Some [])),
      str_float = (\<lambda>x. ''0''),
      map_layers = [area_layer, rest_layer],
      wfs_contents = Inr [(''WATER'', ''Water'')],
      schema_fields = (\<lambda>n. if n = ''Water (EPA:WATER)''
                           then ([''name'', ''code''], [''Loaded 2 WFS fields.''])
                           else ([], [''Loaded 0 ArcGIS REST fields.'']))\<rparr>"

definition new_dialog :: "real dialog" where
  "new_dialog =
     \<lparr>wfs_layers_info = [], api_pre_filtered = Map.empty, shp_layers = [], api_layers = [],
      combo_app = [], combo_api = [], app_current = - 1, api_current = - 1,
      fields_list = [], fields_selected = [], log_lines = []\<rparr>"

text \<open>
  The states this dialog goes through in this world: they differ in the cache, the
  current API item, the listed fields and the log.
\<close>

definition site_dialog ::
  "(string \<times> int \<Rightarrow> real gdf option) \<Rightarrow> int \<Rightarrow> string list \<Rightarrow> string list \<Rightarrow> real dialog" where
  "site_dialog cache api shown lg =
     \<lparr>wfs_layers_info = [(''Water (EPA:WATER)'', ''EPA:WATER'')],
      api_pre_filtered = cache,
      shp_layers = [area_layer], api_layers = [rest_layer],
      combo_app = [''site''], combo_api = [''wells'', ''Water (EPA:WATER)''],
      app_current = 0, api_current = api,
      fields_list = shown, fields_selected = [],
      log_lines = lg\<rparr>"

text \<open>The dialog as its constructor leaves it.\<close>

definition opened :: "real dialog" where
  "opened = populate_layers line_world new_dialog"

definition water_pair :: "string \<times> int" where
  "water_pair = (''Water (EPA:WATER)'', 0)"

text \<open>
  The features of the WFS layer inside the buffer, as \<open>run_prestep\<close> stores them, and the
  dialog once that layer has been chosen.
\<close>

definition water_pre :: "real gdf" where
  "water_pre =
     \<lparr>gdf_crs = Some (EPSG 29903), columns = [''name'', ''code'', ''geometry''],
      gdf_rows = [\<lparr>attrs = [(''name'', ''A''), (''code'', ''1'')], geometry = 50\<rparr>,
                  \<lparr>attrs = [(''name'', ''X''), (''code'', ''123'')], geometry = 10\<rparr>,
                  \<lparr>attrs = [(''name'', ''C''), (''code'', ''3'')], geometry = 30\<rparr>]\<rparr>"

definition water_chosen :: "real dialog" where
  "water_chosen =
     site_dialog [water_pair \<mapsto> water_pre] 1 [''name'', ''code'']
       [''Loaded 1 WFS layers.'', ''Loaded 2 WFS fields.'',
        ''Found 3 WFS features within 100 km (EPSG:29903).'']"





section \<open>Bearing: degrees and label\<close>

lemma py_int_of_int: "py_int (of_int k) = k"
  by (simp add: py_int_def)

lemma azimuth_index: "py_int (py_floordiv x 45) = \<lfloor>x / 45\<rfloor>"
  by (simp add: py_floordiv_def py_int_of_int)

lemma py_getitem_in_range:
  "0 \<le> i \<Longrightarrow> i < int (length xs) \<Longrightarrow> py_getitem xs i = Some (xs ! nat i)"
  by (simp add: py_getitem_def)

lemma azimuth_to_dir_eq:
  "azimuth_to_dir deg = Some (dirs8 ! nat (\<lfloor>(deg + 22.5) / 45\<rfloor> mod 8))"
  unfolding azimuth_to_dir_def Let_def azimuth_index
  by (rule py_getitem_in_range) (simp_all add: dirs8_def)

lemma py_fmod_360_range: "0 \<le> py_fmod x 360 \<and> py_fmod x 360 < 360"
  unfolding py_fmod_def by (simp add: field_simps) linarith



text \<open>
  C3: the bearing label is the entry of \<open>[N, NE, E, SE, S, SW, W, NW]\<close> at index
  \<open>floor((degrees + 22.5) / 45) mod 8\<close>; 0 and 22.4 give N, 22.6 gives NE, 67.5 gives E
  and 359.9 gives N.
\<close>

theorem azimuth_to_dir_label:
  "azimuth_to_dir deg = Some (dirs8 ! nat (\<lfloor>(deg + 22.5) / 45\<rfloor> mod 8))
   \<and> dirs8 = [''N'', ''NE'', ''E'', ''SE'', ''S'', ''SW'', ''W'', ''NW'']
   \<and> azimuth_to_dir 0 = Some ''N''
   \<and> azimuth_to_dir 22.4 = Some ''N''
   \<and> azimuth_to_dir 22.6 = Some ''NE''
   \<and> azimuth_to_dir 67.5 = Some ''E''
   \<and> azimuth_to_dir 359.9 = Some ''N''"
proof -
  have "azimuth_to_dir 0 = Some ''N''"
    by (simp add: azimuth_to_dir_eq dirs8_def)
  moreover have "azimuth_to_dir 22.4 = Some ''N''"
    by (simp add: azimuth_to_dir_eq dirs8_def)
  moreover have "azimuth_to_dir 22.6 = Some ''NE''"
    by (simp add: azimuth_to_dir_eq dirs8_def)
  moreover have "azimuth_to_dir 67.5 = Some ''E''"
    by (simp add: azimuth_to_dir_eq dirs8_def)
  moreover have "azimuth_to_dir 359.9 = Some ''N''"
    by (simp add: azimuth_to_dir_eq dirs8_def)
  ultimately show ?thesis
    using azimuth_to_dir_eq [of deg] by (simp add: dirs8_def)
qed


lemma atan2_north: "0 < d \<Longrightarrow> atan2 0 d = 0"
  by (simp add: atan2_def)

lemma atan2_east: "0 < d \<Longrightarrow> atan2 d 0 = pi / 2"
  by (simp add: atan2_def)

lemma atan2_south: "d < 0 \<Longrightarrow> atan2 0 d = pi"
  by (simp add: atan2_def)

lemma atan2_west: "d < 0 \<Longrightarrow> atan2 d 0 = - (pi / 2)"
  by (simp add: atan2_def)

text \<open>
  The compass convention of the bearing: a point due north of the centroid has bearing
  0, due east 90, due south 180 and due west 270.
\<close>

lemma azimuth_geographic_compass:
  assumes "0 < d"
  shows "azimuth_geographic c (c\<lparr>py := py c + d\<rparr>) = 0"
    and "azimuth_geographic c (c\<lparr>px := px c + d\<rparr>) = 90"
    and "azimuth_geographic c (c\<lparr>py := py c - d\<rparr>) = 180"
    and "azimuth_geographic c (c\<lparr>px := px c - d\<rparr>) = 270"
  using assms
  by (simp_all add: azimuth_geographic_def atan2_north atan2_east atan2_south atan2_west
      degrees_def py_fmod_def)

text \<open>
  The value written to the column of bearings is the bearing rounded to two decimals:
  it is at least 0 and at most 360, and 360 is reached (359.996 rounds to it).
\<close>

lemma py_round2_bearing_range:
  assumes "0 \<le> x" and "x < 360"
  shows "0 \<le> py_round2 x \<and> py_round2 x \<le> 360"
proof -
  have lo: "0 \<le> \<lfloor>x * 100\<rfloor>" using assms(1) by simp
  have "x * 100 < 36000" using assms(2) by simp
  then have hi: "\<lfloor>x * 100\<rfloor> < 36000" by linarith
  from lo hi show ?thesis
    by (simp add: py_round2_def Let_def)
qed

lemma py_round2_reaches_360: "py_round2 359.996 = 360"
proof -
  have "\<lfloor>359.996 * 100 :: real\<rfloor> = 35999" by simp
  then show ?thesis by (simp add: py_round2_def Let_def)
qed

text \<open>
  C2: called as in \<open>run_analysis\<close>, with the centroid first and the nearest boundary
  point \<open>P\<close> second, \<open>azimuth_geographic\<close> is \<open>atan2(P.x - centroid.x, P.y - centroid.y)\<close>
  in degrees, plus 360, modulo 360, and the result is at least 0 and below 360 for all
  inputs.  For every candidate the loop of \<open>run_analysis\<close> computes it so, with \<open>P\<close> the
  second of the nearest points of the candidate and the boundary of the application
  area, and stores it rounded to two decimals.
\<close>

theorem azimuth_geographic_bearing:
  "azimuth_geographic ctr P = bearing_degrees_spec P ctr
   \<and> azimuth_geographic ctr P
       = py_fmod (atan2 (px P - px ctr) (py P - py ctr) * 180 / pi + 360) 360
   \<and> 0 \<le> azimuth_geographic ctr P
   \<and> azimuth_geographic ctr P < 360
   \<and> map_option Direction_deg (score_one sh app_union ctr f)
       = Some (py_round2 (bearing_degrees_spec
                 (snd (nearest_points sh (geometry f) (boundary sh app_union))) ctr))"
proof -
  have eq: "azimuth_geographic c Q = bearing_degrees_spec Q c" for c Q
    by (simp add: azimuth_geographic_def bearing_degrees_spec_def)
  have "bearing_degrees_spec P ctr
       = py_fmod (atan2 (px P - px ctr) (py P - py ctr) * 180 / pi + 360) 360"
    by (simp add: bearing_degrees_spec_def degrees_def)
  moreover have "0 \<le> bearing_degrees_spec P ctr \<and> bearing_degrees_spec P ctr < 360"
    unfolding bearing_degrees_spec_def by (rule py_fmod_360_range)
  moreover have "map_option Direction_deg (score_one sh app_union ctr f)
       = Some (py_round2 (bearing_degrees_spec
                 (snd (nearest_points sh (geometry f) (boundary sh app_union))) ctr))"
    by (simp add: score_one_def Let_def azimuth_to_dir_eq eq)
  ultimately show ?thesis by (simp add: eq)
qed

section \<open>Normalisation to the planar system\<close>

text \<open>
  C7: a collection whose reference system already has EPSG code 29903 is returned
  unchanged, flagged as not reprojected, with its own reference system as the original
  one and nothing logged.
\<close>

theorem to_metric_gdf_already_planar:
  "gdf_crs g = Some c \<Longrightarrow> to_epsg c = Some 29903 \<Longrightarrow>
     to_metric_gdf lib g = ((g, False, Some c), [])"
  by (simp add: to_metric_gdf_def convert_29903_def)

theorem to_metric_gdf_already_planar_witness:
  "to_metric_gdf \<lparr>set_crs = \<lambda>g n. Inl ''unused'', to_crs = \<lambda>g n. Inl ''unused''\<rparr>
     \<lparr>gdf_crs = Some (EPSG 29903), columns = [''name'', ''geometry''], gdf_rows = [\<lparr>attrs = [(''name'', ''X'')], geometry = (1::nat)\<rparr>]\<rparr>
   = ((\<lparr>gdf_crs = Some (EPSG 29903), columns = [''name'', ''geometry''], gdf_rows = [\<lparr>attrs = [(''name'', ''X'')], geometry = (1::nat)\<rparr>]\<rparr>,
       False, Some (EPSG 29903)), [])"
  by (rule to_metric_gdf_already_planar) simp_all

text \<open>
  C6: for a collection with no reference system, when geopandas assigns EPSG:4326 and
  reprojects without raising, the normaliser assigns 4326 first, logs that assumption
  before anything else, and returns the reprojected collection, whose reference system
  is 29903, flagged as reprojected with 4326 as the original system.
\<close>

theorem to_metric_gdf_no_crs:
  assumes "gdf_crs g = None"
    and "set_crs lib g 4326 = Inr g1" and "gdf_crs g1 = Some (EPSG 4326)"
    and "to_crs lib g1 29903 = Inr g2" and "gdf_crs g2 = Some (EPSG 29903)"
  shows "to_metric_gdf lib g =
           ((g2, True, Some (EPSG 4326)),
            [''Layer has no CRS; assumed EPSG:4326.'',
             ''Reprojected layer to EPSG:29903 (Irish Grid).''])
         \<and> gdf_crs (fst (fst (to_metric_gdf lib g))) = Some (EPSG 29903)"
  using assms by (simp add: to_metric_gdf_def convert_29903_def)

theorem to_metric_gdf_no_crs_witness:
  "to_metric_gdf
     \<lparr>set_crs = \<lambda>g n. Inr (g\<lparr>gdf_crs := Some (EPSG n)\<rparr>),
      to_crs = \<lambda>g n. Inr (g\<lparr>gdf_crs := Some (EPSG n)\<rparr>)\<rparr>
     \<lparr>gdf_crs = None, columns = [''name'', ''geometry''], gdf_rows = [\<lparr>attrs = [(''name'', ''X'')], geometry = (1::nat)\<rparr>]\<rparr>
   = ((\<lparr>gdf_crs = Some (EPSG 29903), columns = [''name'', ''geometry''], gdf_rows = [\<lparr>attrs = [(''name'', ''X'')], geometry = (1::nat)\<rparr>]\<rparr>,
       True, Some (EPSG 4326)),
      [''Layer has no CRS; assumed EPSG:4326.'',
       ''Reprojected layer to EPSG:29903 (Irish Grid).''])"
  using to_metric_gdf_no_crs
    [of "\<lparr>gdf_crs = None, columns = [''name'', ''geometry''], gdf_rows = [\<lparr>attrs = [(''name'', ''X'')], geometry = (1::nat)\<rparr>]\<rparr>"
        "\<lparr>set_crs = \<lambda>g n. Inr (g\<lparr>gdf_crs := Some (EPSG n)\<rparr>),
          to_crs = \<lambda>g n. Inr (g\<lparr>gdf_crs := Some (EPSG n)\<rparr>)\<rparr>"
        "\<lparr>gdf_crs = Some (EPSG 4326), columns = [''name'', ''geometry''], gdf_rows = [\<lparr>attrs = [(''name'', ''X'')], geometry = (1::nat)\<rparr>]\<rparr>"
        "\<lparr>gdf_crs = Some (EPSG 29903), columns = [''name'', ''geometry''], gdf_rows = [\<lparr>attrs = [(''name'', ''X'')], geometry = (1::nat)\<rparr>]\<rparr>"]
  by simp

section \<open>The cache of pre-downloaded features\<close>

lemma read_app_layer_log_to [simp]: "read_app_layer w (log_to m d) i = read_app_layer w d i"
  by (simp add: read_app_layer_def log_to_def)

lemma cache_log_to [simp]: "api_pre_filtered (log_to m d) = api_pre_filtered d"
  by (simp add: log_to_def)

lemma cache_store: "api_pre_filtered (store key g d) = (api_pre_filtered d)(key \<mapsto> g)"
  by (simp add: store_def)

lemma prestep_wfs_cache:
  "api_pre_filtered d key = None \<Longrightarrow> api_pre_filtered d k = Some g \<Longrightarrow>
     api_pre_filtered (fst (prestep_wfs w t key buf d)) k = Some g"
  by (auto simp: prestep_wfs_def cache_store Let_def split: sum.splits)

lemma prestep_arcgis_cache:
  "api_pre_filtered d key = None \<Longrightarrow> api_pre_filtered d k = Some g \<Longrightarrow>
     api_pre_filtered (fst (prestep_arcgis w s key buf d)) k = Some g"
  by (auto simp: prestep_arcgis_def cache_store Let_def split: sum.splits option.splits prod.splits)

lemma prestep_download_cache:
  "api_pre_filtered d key = None \<Longrightarrow> api_pre_filtered d k = Some g \<Longrightarrow>
     api_pre_filtered (fst (prestep_download w n key buf d)) k = Some g"
  by (simp add: prestep_download_def Let_def prestep_wfs_cache prestep_arcgis_cache)

lemma run_prestep_cache:
  "api_pre_filtered d k = Some g \<Longrightarrow> api_pre_filtered (fst (run_prestep w d)) k = Some g"
  by (auto simp: run_prestep_def Let_def prestep_download_cache split: sum.splits prod.splits)

lemma run_analysis_cache: "api_pre_filtered (snd (run_analysis w d)) = api_pre_filtered d"
  by (auto simp: run_analysis_def Let_def split: option.splits sum.splits prod.splits)

lemma update_fields_cache [simp]:
  "api_pre_filtered (update_fields_for_api w d) = api_pre_filtered d"
  by (simp add: update_fields_for_api_def Let_def)

lemma step_cache:
  "e \<noteq> Refresh \<Longrightarrow> api_pre_filtered d k = Some g \<Longrightarrow>
     api_pre_filtered (fst (step w d e)) k = Some g"
  by (cases e) (simp_all add: run_prestep_cache run_analysis_cache)

lemma session_cache:
  "Refresh \<notin> set es \<Longrightarrow> api_pre_filtered d k = Some g \<Longrightarrow>
     api_pre_filtered (fst (session w d es)) k = Some g"
proof (induction es arbitrary: d)
  case Nil
  then show ?case by simp
next
  case (Cons e es)
  from Cons.prems have "e \<noteq> Refresh" by auto
  with Cons.prems have "api_pre_filtered (fst (step w d e)) k = Some g"
    by (simp add: step_cache)
  with Cons.prems Cons.IH [of "fst (step w d e)"] show ?case
    by (simp add: split_beta Let_def)
qed

lemma run_prestep_cached:
  "api_pre_filtered d (selected_pair d) = Some g \<Longrightarrow>
     snd (run_prestep w d) = [] \<and> api_pre_filtered (fst (run_prestep w d)) = api_pre_filtered d"
  by (simp add: run_prestep_def selected_pair_def Let_def)

lemma populate_clears: "api_pre_filtered (populate_layers w d) k = None"
  by (simp add: populate_layers_def Let_def split_beta)

subsection \<open>The concrete session\<close>

lemma area_layer_app: "is_app_layer area_layer"
  by code_simp

lemma rest_layer_api: "\<not> is_app_layer rest_layer"
  by code_simp

lemma water_entry: "wfs_entry (''WATER'', ''Water'') = (''Water (EPA:WATER)'', ''EPA:WATER'')"
  by code_simp

lemma str_nat_values: "str_nat (Suc 0) = ''1''" "str_nat (Suc (Suc (Suc 0))) = ''3''"
  by code_simp+

lemma rest_layer_source:
  "clean_source (layer_source rest_layer) = ''https://example.org/rest/services/wells/MapServer/0''"
  "is_arcgis ''https://example.org/rest/services/wells/MapServer/0''"
  "query_url ''https://example.org/rest/services/wells/MapServer/0''
     = ''https://example.org/rest/services/wells/MapServer/0/query''"
  by code_simp+

lemma line_world_fields:
  "gpd line_world = tagging_geopandas"
  "shp line_world = line_shapely"
  "read_file line_world ''site.shp'' = Inr area_gdf"
  "sort_values line_world = sort_key Distance_m"
  "save_file_name line_world = ''Nearest_Result.csv''"
  "wfs_get_feature line_world ''EPA:WATER'' = Inr remote_gdf"
  "arcgis_query line_world u p = Inr (Some [])"
  "str_float line_world x = ''0''"
  "map_layers line_world = [area_layer, rest_layer]"
  "wfs_contents line_world = Inr [(''WATER'', ''Water'')]"
  "schema_fields line_world ''Water (EPA:WATER)'' = ([''name'', ''code''], [''Loaded 2 WFS fields.''])"
  by (simp_all add: line_world_def)

lemma layer_fields:
  "is_vector area_layer" "is_vector rest_layer"
  "layer_name area_layer = ''site''" "layer_name rest_layer = ''wells''"
  "field_names area_layer = [''id'']" "data_source_uri area_layer = ''site.shp''"
  by (simp_all add: area_layer_def rest_layer_def)

lemma refresh_site:
  "populate_layers line_world (site_dialog cache api shown lg)
     = site_dialog Map.empty 0 [''id''] (lg @ [''Loaded 1 WFS layers.''])"
  by (simp add: site_dialog_def populate_layers_def Let_def line_world_fields layer_fields
        area_layer_app rest_layer_api water_entry str_nat_values first_index_def)

lemma opened_eq: "opened = site_dialog Map.empty 0 [''id''] [''Loaded 1 WFS layers.'']"
  by (simp add: opened_def site_dialog_def populate_layers_def Let_def line_world_fields
        layer_fields area_layer_app rest_layer_api water_entry str_nat_values first_index_def
        new_dialog_def)

lemmas prestep_eval =
  run_prestep_def Let_def current_text_def read_app_layer_def py_getitem_def
  line_world_fields layer_fields bbox_str_def to_metric_gdf_def convert_29903_def area_gdf_def
  log_to_def prestep_download_def truthy_def str_or_empty_def prestep_wfs_def
  tagging_geopandas_def remote_gdf_def prefilter_def line_shapely_def store_def str_nat_values

lemma choose_water:
  "api \<noteq> 1 \<Longrightarrow>
   step line_world (site_dialog Map.empty api shown lg) (SelectApi 1)
     = (site_dialog [water_pair \<mapsto> water_pre] 1 [''name'', ''code'']
          (lg @ [''Loaded 2 WFS fields.'', ''Found 3 WFS features within 100 km (EPSG:29903).'']),
        [WfsGetFeature ''EPA:WATER''])"
  by (simp add: site_dialog_def valid_index_def update_fields_for_api_def prestep_eval
        water_pre_def water_pair_def)

lemma session_choose_water:
  "session line_world opened [SelectApi 1] = (water_chosen, [WfsGetFeature ''EPA:WATER''])"
  by (simp add: opened_eq choose_water water_chosen_def del: step.simps(2))

lemma session_water_refresh:
  "session line_world water_chosen [Refresh, SelectApi 1]
     = (site_dialog [water_pair \<mapsto> water_pre] 1 [''name'', ''code'']
          [''Loaded 1 WFS layers.'', ''Loaded 2 WFS fields.'',
           ''Found 3 WFS features within 100 km (EPSG:29903).'',
           ''Loaded 1 WFS layers.'', ''Loaded 2 WFS fields.'',
           ''Found 3 WFS features within 100 km (EPSG:29903).''],
        [WfsGetFeature ''EPA:WATER''])"
  by (simp add: water_chosen_def refresh_site choose_water del: step.simps(2))

lemma run_analysis_state: "\<exists>L. snd (run_analysis w d) = d\<lparr>log_lines := L\<rparr>"
  by (auto simp: run_analysis_def Let_def log_to_def split: option.splits sum.splits prod.splits)

lemma run_analysis_selected: "selected_pair (snd (run_analysis w d)) = selected_pair d"
proof -
  obtain L where "snd (run_analysis w d) = d\<lparr>log_lines := L\<rparr>"
    using run_analysis_state by blast
  then show ?thesis by (simp add: selected_pair_def)
qed

text \<open>
  C9, as the code has it: once a collection is stored for a pair (API layer name,
  application layer index), it stays stored through every choice of a layer and every
  run of the analysis, and a request for that pair sends nothing to the remote services
  and leaves the cache as it is.  This lasts until the layer lists are repopulated
  (Refresh, or the plugin opening the dialog again): \<open>populate_layers\<close> empties the cache.
\<close>

theorem cached_pair_served_until_refresh:
  assumes "api_pre_filtered d k = Some g"
    and "Refresh \<notin> set es"
    and "selected_pair (fst (session w d es)) = k"
  shows "api_pre_filtered (fst (session w d es)) k = Some g
         \<and> snd (run_prestep w (fst (session w d es))) = []
         \<and> api_pre_filtered (fst (run_prestep w (fst (session w d es))))
             = api_pre_filtered (fst (session w d es))
         \<and> api_pre_filtered (populate_layers w (fst (session w d es))) k = None"
proof -
  have kept: "api_pre_filtered (fst (session w d es)) k = Some g"
    using assms(1,2) by (simp add: session_cache)
  with assms(3) have "api_pre_filtered (fst (session w d es)) (selected_pair (fst (session w d es))) = Some g"
    by simp
  from run_prestep_cached [OF this] kept show ?thesis
    by (simp add: populate_clears)
qed

lemma water_chosen_fields:
  "api_pre_filtered water_chosen water_pair = Some water_pre"
  "selected_pair water_chosen = water_pair"
  by (simp_all add: water_chosen_def site_dialog_def selected_pair_def current_text_def water_pair_def)

theorem cached_pair_served_until_refresh_witness:
  "api_pre_filtered water_chosen water_pair = Some water_pre
   \<and> Refresh \<notin> set [Run]
   \<and> selected_pair (fst (session line_world water_chosen [Run])) = water_pair
   \<and> api_pre_filtered (fst (session line_world water_chosen [Run])) water_pair = Some water_pre
   \<and> snd (run_prestep line_world (fst (session line_world water_chosen [Run]))) = []"
proof -
  have a: "api_pre_filtered water_chosen water_pair = Some water_pre"
    by (rule water_chosen_fields)
  have b: "Refresh \<notin> set [Run]" by simp
  have c: "selected_pair (fst (session line_world water_chosen [Run])) = water_pair"
    by (simp add: run_analysis_selected water_chosen_fields)
  from cached_pair_served_until_refresh [OF a b c] a b c show ?thesis by simp
qed

theorem cache_cleared_by_refresh_counterexample:
  "fst (session line_world opened [SelectApi 1]) = water_chosen
   \<and> api_pre_filtered water_chosen water_pair = Some water_pre
   \<and> selected_pair (fst (session line_world water_chosen [Refresh, SelectApi 1])) = water_pair
   \<and> snd (session line_world water_chosen [Refresh, SelectApi 1]) = [WfsGetFeature ''EPA:WATER'']"
  by (simp only: session_choose_water session_water_refresh fst_conv snd_conv water_chosen_fields)
     (simp add: selected_pair_def water_chosen_def site_dialog_def current_text_def water_pair_def)

section \<open>The tiled-query fetch\<close>

text \<open>
  C8, as the code has it: in the ArcGIS variant an answer whose feature list is empty or
  absent is not an error.  The fetch sends its one query, logs the status line
  \<open>No features returned from ArcGIS API.\<close> and stores no collection: the cache is left as
  it was, so the pair still has no entry.
\<close>

theorem prestep_arcgis_no_features:
  assumes "arcgis_query w (query_url s) (query_params (bbox_str w buf)) = Inr data"
    and "data = None \<or> data = Some []"
  shows "prestep_arcgis w s key buf d
           = (log_to [''No features returned from ArcGIS API.''] d,
              [ArcgisQuery (query_url s) (query_params (bbox_str w buf))])
         \<and> api_pre_filtered (fst (prestep_arcgis w s key buf d)) = api_pre_filtered d"
  using assms by (auto simp: prestep_arcgis_def Let_def)

theorem prestep_arcgis_no_features_witness:
  "arcgis_query line_world (query_url ''https://example.org/rest/services/wells/MapServer/0'')
       (query_params (bbox_str line_world 100000)) = Inr (Some [])
   \<and> prestep_arcgis line_world ''https://example.org/rest/services/wells/MapServer/0''
         (''wells'', 0) 100000 opened
       = (log_to [''No features returned from ArcGIS API.''] opened,
          [ArcgisQuery (query_url ''https://example.org/rest/services/wells/MapServer/0'')
             (query_params (bbox_str line_world 100000))])"
proof -
  have a: "arcgis_query line_world (query_url ''https://example.org/rest/services/wells/MapServer/0'')
       (query_params (bbox_str line_world 100000)) = Inr (Some [])"
    by (rule line_world_fields)
  have b: "Some [] = None \<or> Some [] = Some ([] :: real geojson_feature list)"
    by simp
  from prestep_arcgis_no_features [OF a b] a show ?thesis by simp
qed

text \<open>
  At export time a pair without an entry and a pair with an empty collection are treated
  alike: the warning box \<open>Preprocessed data is empty.\<close>
\<close>

lemma run_analysis_without_entry:
  "0 \<le> app_current d \<Longrightarrow> current_text (combo_api d) (api_current d) \<noteq> [] \<Longrightarrow>
   api_pre_filtered d (selected_pair d) = None \<Longrightarrow>
     fst (run_analysis w d) = Warning ''Error'' ''Preprocessed data is empty.''"
  by (simp add: run_analysis_def Let_def selected_pair_def log_to_def)

lemma run_analysis_empty_entry:
  "0 \<le> app_current d \<Longrightarrow> current_text (combo_api d) (api_current d) \<noteq> [] \<Longrightarrow>
   api_pre_filtered d (selected_pair d) = Some pre_gdf \<Longrightarrow> gdf_rows pre_gdf = [] \<Longrightarrow>
     fst (run_analysis w d) = Warning ''Error'' ''Preprocessed data is empty.''"
  by (simp add: run_analysis_def Let_def selected_pair_def log_to_def)

theorem arcgis_empty_answer_counterexample:
  "selected_pair opened = (''wells'', 0)
   \<and> arcgis_query line_world ''https://example.org/rest/services/wells/MapServer/0/query''
         (query_params ''0,0,0,0'') = Inr (Some [])
   \<and> snd (run_prestep line_world opened)
       = [ArcgisQuery ''https://example.org/rest/services/wells/MapServer/0/query''
            (query_params ''0,0,0,0'')]
   \<and> api_pre_filtered (fst (run_prestep line_world opened)) (''wells'', 0) = None
   \<and> log_lines (fst (run_prestep line_world opened))
       = [''Loaded 1 WFS layers.'', ''No features returned from ArcGIS API.'']"
  by (simp add: opened_eq site_dialog_def selected_pair_def prestep_eval find_source_def rest_layer_source
        prestep_arcgis_def)
     (simp add: rest_layer_def)

section \<open>The evaluator\<close>

lemma log_to_fields [simp]:
  "app_current (log_to m d) = app_current d"
  "api_current (log_to m d) = api_current d"
  "combo_api (log_to m d) = combo_api d"
  "fields_selected (log_to m d) = fields_selected d"
  by (simp_all add: log_to_def)










subsection \<open>The concrete run\<close>

lemma bearing_due_north: "azimuth_geographic \<lparr>px = 0, py = 0\<rparr> \<lparr>px = 0, py = 500\<rparr> = 0"
  by (simp add: azimuth_geographic_def atan2_def degrees_def py_fmod_def)

lemma py_round2_zero: "py_round2 0 = 0"
  by (simp add: py_round2_def)

lemma label_north: "azimuth_to_dir 0 = Some ''N''"
  by (simp add: azimuth_to_dir_eq dirs8_def)

lemma line_score_one:
  "score_one line_shapely 0 \<lparr>px = 0, py = 0\<rparr> \<lparr>attrs = a, geometry = g\<rparr>
     = Some \<lparr>attrs = a, geometry = g, Distance_m = \<bar>g\<bar>, Direction_deg = 0, Direction = ''N''\<rparr>"
  by (simp add: score_one_def line_shapely_def bearing_due_north py_round2_zero label_north)

lemma water_rows_scored:
  "score_all line_shapely 0 \<lparr>px = 0, py = 0\<rparr> (gdf_rows water_pre)
     = Some [\<lparr>attrs = [(''name'', ''A''), (''code'', ''1'')], geometry = 50,
               Distance_m = 50, Direction_deg = 0, Direction = ''N''\<rparr>,
             \<lparr>attrs = [(''name'', ''X''), (''code'', ''123'')], geometry = 10,
               Distance_m = 10, Direction_deg = 0, Direction = ''N''\<rparr>,
             \<lparr>attrs = [(''name'', ''C''), (''code'', ''3'')], geometry = 30,
               Distance_m = 30, Direction_deg = 0, Direction = ''N''\<rparr>]"
  by (simp add: water_pre_def line_score_one)

lemma water_nearest:
  "keep_nearest line_world
     [\<lparr>attrs = [(''name'', ''A''), (''code'', ''1'')], geometry = 50,
        Distance_m = 50, Direction_deg = 0, Direction = ''N''\<rparr>,
      \<lparr>attrs = [(''name'', ''X''), (''code'', ''123'')], geometry = 10,
        Distance_m = 10, Direction_deg = 0, Direction = ''N''\<rparr>,
      \<lparr>attrs = [(''name'', ''C''), (''code'', ''3'')], geometry = 30,
        Distance_m = 30, Direction_deg = 0, Direction = ''N''\<rparr>]
   = [\<lparr>attrs = [(''name'', ''X''), (''code'', ''123'')], geometry = 10::real,
        Distance_m = 10, Direction_deg = 0, Direction = ''N''\<rparr>]"
  by (simp add: keep_nearest_def line_world_fields)



text \<open>
  C5 at the input where it fails: with no field selected, the columns of \<open>result_gdf\<close>
  other than \<open>geometry\<close> already include the three computed columns, so the header
  written to the CSV names them twice.  With the field \<open>name\<close> selected the header is
  \<open>name\<close>, \<open>Distance_m\<close>, the column of bearings, \<open>Direction\<close>.
\<close>

theorem export_without_selection_repeats_computed:
  "fields_selected water_chosen = []
   \<and> export_cols [] [''name'', ''code'', ''geometry'']
       = [''name'', ''code'', ''Distance_m'', col_direction_deg, ''Direction'',
          ''Distance_m'', col_direction_deg, ''Direction'']
   \<and> fst (run_analysis line_world water_chosen)
       = Csv ''Nearest_Result.csv''
           [''name'', ''code'', ''Distance_m'', col_direction_deg, ''Direction'',
            ''Distance_m'', col_direction_deg, ''Direction'']
           [[Text ''X'', Text ''123'', Number 10, Number 0, Text ''N'',
             Number 10, Number 0, Text ''N'']]
   \<and> export_cols [''name''] [''name'', ''code'', ''geometry'']
       = [''name'', ''Distance_m'', col_direction_deg, ''Direction'']"
proof -
  have cols: "export_cols [] [''name'', ''code'', ''geometry'']
       = [''name'', ''code'', ''Distance_m'', col_direction_deg, ''Direction'',
          ''Distance_m'', col_direction_deg, ''Direction'']"
    by (simp add: export_cols_def result_columns_def assign_column_def col_direction_deg_def)
  have sub: "export_cols [''name''] [''name'', ''code'', ''geometry'']
       = [''name'', ''Distance_m'', col_direction_deg, ''Direction'']"
    by (simp add: export_cols_def)
  have rd: "read_app_layer line_world water_chosen 0 = (Inr area_gdf, [])"
    by (simp add: water_chosen_def site_dialog_def read_app_layer_def py_getitem_def line_world_fields
          layer_fields to_metric_gdf_def convert_29903_def area_gdf_def)
  have pt: "unary_union line_shapely (gdf_rows area_gdf) = 0"
      "centroid line_shapely 0 = \<lparr>px = 0, py = 0\<rparr>"
    by (simp_all add: line_shapely_def)
  have flt: "filter (\<lambda>f. intersects line_shapely (geometry f) (buffer line_shapely 0 100000))
              (gdf_rows water_pre) = gdf_rows water_pre"
    by (simp add: line_shapely_def water_pre_def)
  have wp: "columns water_pre = [''name'', ''code'', ''geometry'']" "gdf_rows water_pre \<noteq> []"
    by (simp_all add: water_pre_def)
  have ok: "set (export_cols [] [''name'', ''code'', ''geometry''])
              \<subseteq> set (result_columns [''name'', ''code'', ''geometry''])"
    by (simp add: cols) (simp add: result_columns_def assign_column_def col_direction_deg_def)
  let ?r = "\<lparr>attrs = [(''name'', ''X''), (''code'', ''123'')], geometry = 10::real,
             Distance_m = 10, Direction_deg = 0, Direction = ''N''\<rparr>"
  have cells: "cell_of ?r ''name'' = Text ''X''" "cell_of ?r ''code'' = Text ''123''"
      "cell_of ?r ''Distance_m'' = Number 10" "cell_of ?r col_direction_deg = Number 0"
      "cell_of ?r ''Direction'' = Text ''N''"
    by (simp_all add: cell_of_def col_direction_deg_def)
  have ev: "fst (evaluate line_world [] water_pre area_gdf)
       = Csv ''Nearest_Result.csv''
           [''name'', ''code'', ''Distance_m'', col_direction_deg, ''Direction'',
            ''Distance_m'', col_direction_deg, ''Direction'']
           [[Text ''X'', Text ''123'', Number 10, Number 0, Text ''N'',
             Number 10, Number 0, Text ''N'']]"
    by (simp add: evaluate_def Let_def line_world_fields pt flt wp water_rows_scored
          water_nearest ok cells) (simp add: cols cells)
  have "fst (run_analysis line_world water_chosen) = fst (evaluate line_world [] water_pre area_gdf)"
    using rd wp(2)
    by (simp add: run_analysis_def Let_def split_beta)
       (simp add: water_chosen_def site_dialog_def current_text_def water_pair_def split_beta)
  with ev cols sub show ?thesis
    by (simp add: water_chosen_def site_dialog_def)
qed

end
